theory Spec2Isabelle
  imports Complex_Main "HOL-Library.AList"
begin

section \<open>Type descriptors (the part of \<open>reflect\<close> that \<open>schema.go\<close> reads)\<close>

text \<open>
  \<open>schema.go\<close> inspects Go types through \<open>reflect.Type\<close>: the kind, the element type,
  the array length, the name and, for a struct, its fields with their tags. A type
  descriptor is a finite tree, so a self-referential Go type has no descriptor here.
  Two descriptors are the same Go type when they are equal: a named type carries its
  name, an unnamed one the empty name.
\<close>

datatype kind =
    Invalid | Bool | IntK | Int8 | Int16 | Int32 | Int64
  | Uint | Uint8 | Uint16 | Uint32 | Uint64 | Uintptr
  | Float32 | Float64 | Complex64 | Complex128
  | Array | Chan | Func | Interface | Map | Ptr | Slice | String | Struct
  | UnsafePointer

datatype gotype =
    TBasic kind
  | TArray string nat gotype
  | TSlice string gotype
  | TMap string gotype gotype
  | TStruct string "StructField list"
  | TPtr gotype
  | TInterface string
  | TFunc
  | TChan gotype
and StructField =
    StructField (Name: string) (IsExported: bool) (Anonymous: bool)
                (FieldType: gotype) (Tag: "(string \<times> string) list")

text \<open>
  \<open>IntK\<close> is \<open>reflect.Int\<close> (\<open>Int\<close> is the intersection of sets in HOL).
  \<open>TBasic\<close> carries the scalar kinds only; the other kinds have their own constructor.
  The selector \<open>FieldType\<close> is \<open>reflect.StructField.Type\<close> (the name \<open>Type\<close> is kept for
  the schema's field).
\<close>

fun Kind :: "gotype \<Rightarrow> kind" where
  "Kind (TBasic k) = k"
| "Kind (TArray _ _ _) = Array"
| "Kind (TSlice _ _) = Slice"
| "Kind (TMap _ _ _) = Map"
| "Kind (TStruct _ _) = Struct"
| "Kind (TPtr _) = Ptr"
| "Kind (TInterface _) = Interface"
| "Kind TFunc = Func"
| "Kind (TChan _) = Chan"

text \<open>\<open>t.Name()\<close>: the name of a defined type, empty for an unnamed one.\<close>

fun TypeName :: "gotype \<Rightarrow> string" where
  "TypeName (TArray n _ _) = n"
| "TypeName (TSlice n _) = n"
| "TypeName (TMap n _ _) = n"
| "TypeName (TStruct n _) = n"
| "TypeName (TInterface n) = n"
| "TypeName _ = []"

text \<open>\<open>f.Tag.Get(key)\<close>: the value of the first pair with that key, the empty string without one.\<close>

definition TagGet :: "StructField \<Rightarrow> string \<Rightarrow> string" where
  "TagGet f key = (case map_of (Tag f) key of None \<Rightarrow> [] | Some v \<Rightarrow> v)"

definition timeType :: gotype where
  "timeType = TStruct ''time.Time''
     [StructField ''wall'' False False (TBasic Uint64) [],
      StructField ''ext'' False False (TBasic Int64) [],
      StructField ''loc'' False False (TPtr (TStruct ''time.Location'' [])) []]"

definition ipType :: gotype where
  "ipType = TSlice ''net.IP'' (TBasic Uint8)"

definition urlType :: gotype where
  "urlType = TStruct ''url.URL''
     [StructField ''Scheme'' True False (TBasic String) [],
      StructField ''Opaque'' True False (TBasic String) [],
      StructField ''User'' True False (TPtr (TStruct ''url.Userinfo'' [])) [],
      StructField ''Host'' True False (TBasic String) [],
      StructField ''Path'' True False (TBasic String) [],
      StructField ''RawPath'' True False (TBasic String) [],
      StructField ''OmitHost'' True False (TBasic Bool) [],
      StructField ''ForceQuery'' True False (TBasic Bool) [],
      StructField ''RawQuery'' True False (TBasic String) [],
      StructField ''Fragment'' True False (TBasic String) [],
      StructField ''RawFragment'' True False (TBasic String) []]"

text \<open>\<open>deref\<close> (schema.go, line 38): strip every pointer.\<close>

fun deref :: "gotype \<Rightarrow> gotype" where
  "deref (TPtr t) = deref t"
| "deref t = t"

section \<open>Field resolution\<close>

record fieldInfo =
  Parent :: gotype
  Field :: StructField

text \<open>
  The first loop of \<open>getFields\<close> (schema.go, line 322): an unexported field is passed
  over, an anonymous one is kept for later, the others become field infos of \<open>typ\<close>.
\<close>

fun directFields :: "gotype \<Rightarrow> StructField list \<Rightarrow> fieldInfo list" where
  "directFields typ [] = []"
| "directFields typ (f # fs) =
     (if \<not> IsExported f then directFields typ fs
      else if Anonymous f then directFields typ fs
      else \<lparr>Parent = typ, Field = f\<rparr> # directFields typ fs)"

fun embeddedFields :: "StructField list \<Rightarrow> StructField list" where
  "embeddedFields [] = []"
| "embeddedFields (f # fs) =
     (if \<not> IsExported f then embeddedFields fs
      else if Anonymous f then f # embeddedFields fs
      else embeddedFields fs)"

lemma embeddedFields_subset: "set (embeddedFields fs) \<subseteq> set fs"
  by (induction fs) auto

lemma size_deref_le: "size (deref t) \<le> size t"
  by (induction t rule: deref.induct) auto

text \<open>
  \<open>getFields\<close> (schema.go, line 318). \<open>typ.NumField()\<close> panics on a type that is not a
  struct; both callers pass a struct only, and the model gives no field for the rest.
\<close>

function getFields :: "gotype \<Rightarrow> fieldInfo list" where
  "getFields typ =
     (case typ of
        TStruct n fs \<Rightarrow>
          directFields typ fs @
          concat (map (\<lambda>f. let newTyp = deref (FieldType f) in
                            if Kind newTyp = Struct then getFields newTyp else [])
                      (embeddedFields fs))
      | _ \<Rightarrow> [])"
  by pat_completeness auto

lemma size_field_type: "f \<in> set fs \<Longrightarrow> size (FieldType f) < Suc (size_list size fs)"
proof (induction fs)
  case Nil
  then show ?case by simp
next
  case (Cons g gs)
  show ?case
  proof (cases "f = g")
    case True
    then show ?thesis by (cases g) simp
  next
    case False
    with Cons show ?thesis by auto
  qed
qed

termination getFields
proof (relation "measure size")
  show "wf (measure size)" by simp
next
  fix t :: gotype and n fs f newTyp
  assume tdef: "t = TStruct n fs" and f: "f \<in> set (embeddedFields fs)"
    and nt: "newTyp = deref (FieldType f)"
  from f embeddedFields_subset have "f \<in> set fs" by blast
  then have "size (FieldType f) < Suc (size_list size fs)" by (rule size_field_type)
  moreover have "size (deref (FieldType f)) \<le> size (FieldType f)" by (rule size_deref_le)
  ultimately show "(newTyp, t) \<in> measure size" using tdef nt by simp
qed

declare getFields.simps [simp del]

section \<open>Values, library functions and construction faults\<close>

text \<open>
  A Go value of type \<open>any\<close> as the schema stores it (defaults, examples, enum members)
  and as the validator receives it. \<open>JNull\<close> is the nil interface; a \<open>float64\<close> is a
  rational number here.
\<close>

datatype jvalue =
    JNull
  | JBool bool
  | JNum rat
  | JStr string
  | JArr "jvalue list"
  | JObj "(string \<times> jvalue) list"

text \<open>
  Functions of the Go standard library and of the platform that the code calls: they are
  parameters of the model. An error is the left summand with the error's text.
\<close>

record lib =
  UintSize :: nat
  Atoi :: "string \<Rightarrow> string + int"
  ParseFloat :: "string \<Rightarrow> string + rat"
  jsonUnmarshal :: "string \<Rightarrow> string + jvalue"
  ConvertibleTo :: "gotype \<Rightarrow> gotype \<Rightarrow> bool"
  Convert :: "jvalue \<Rightarrow> gotype \<Rightarrow> jvalue"
  TrimSpace :: "string \<Rightarrow> string"
  regexpCompile :: "string \<Rightarrow> string option"
  regexpMatch :: "string \<Rightarrow> string \<Rightarrow> bool"
  SprintFloat :: "rat \<Rightarrow> string"
  SprintInt :: "int \<Rightarrow> string"
  SprintAny :: "jvalue \<Rightarrow> string"
  RuneCount :: "string \<Rightarrow> nat"
  base64Decode :: "string \<Rightarrow> string option"
  formatError :: "string \<Rightarrow> string \<Rightarrow> string option"
  isMultipleOf :: "rat \<Rightarrow> rat \<Rightarrow> bool"

text \<open>
  \<open>regexpCompile p\<close> is the error text of \<open>regexp.Compile\<close>, \<open>None\<close> when \<open>p\<close> compiles;
  \<open>base64Decode\<close> is \<open>None\<close> when decoding fails; \<open>formatError fmt v\<close> is the message of
  the format's validator on \<open>v\<close>, \<open>None\<close> when \<open>v\<close> conforms or the format is unknown.
\<close>

text \<open>Every panic of schema.go is a value of this type.\<close>

datatype fault =
    InvalidBoolTag string string string
  | InvalidIntTag string string string string
  | InvalidFloatTag string string string string
  | InvalidTag string string
  | UnableToConvert
  | RegexpPanic string
  | IndexOutOfRange
  | NilDereference
  | ReflectPanic

definition andThen :: "fault + 'a \<Rightarrow> ('a \<Rightarrow> fault + 'b) \<Rightarrow> fault + 'b" where
  "andThen m k = (case m of Inl e \<Rightarrow> Inl e | Inr x \<Rightarrow> k x)"

text \<open>\<open>strings.Split(s, ",")\<close>, \<open>strings.Contains\<close> and \<open>strings.Join\<close>.\<close>

fun splitComma :: "string \<Rightarrow> string list" where
  "splitComma [] = [[]]"
| "splitComma (c # cs) =
     (if c = CHR '','' then [] # splitComma cs
      else (case splitComma cs of [] \<Rightarrow> [[c]] | w # ws \<Rightarrow> (c # w) # ws))"

fun Contains :: "string \<Rightarrow> string \<Rightarrow> bool" where
  "Contains [] sub = (sub = [])"
| "Contains (c # cs) sub = (take (length sub) (c # cs) = sub \<or> Contains cs sub)"

fun Join :: "string list \<Rightarrow> string \<Rightarrow> string" where
  "Join [] sep = []"
| "Join [x] sep = x"
| "Join (x # y # ys) sep = x @ sep @ Join (y # ys) sep"

section \<open>The schema\<close>

text \<open>
  \<open>Schema\<close> (schema.go, line 49). The struct's fields that hold no schema are the two
  records \<open>constraints\<close> (the exported fields and the three lookup fields) and \<open>messages\<close>
  (the precomputed messages); the node adds the three fields that hold child schemas.
  A \<open>*float64\<close> or \<open>*int\<close> is an option. \<open>Required\<close> and \<open>msgRequired\<close> are options too,
  since the code tests them against nil; the other slices and maps are never tested
  against nil, and an empty one stands for nil. A Go map is an association list with
  distinct keys, in insertion order.
\<close>

record constraints =
  Type :: string
  Title :: string
  Description :: string
  Ref :: string
  Format :: string
  ContentEncoding :: string
  Default :: jvalue
  Examples :: "jvalue list"
  Enum :: "jvalue list"
  Minimum :: "rat option"
  ExclusiveMinimum :: "rat option"
  Maximum :: "rat option"
  ExclusiveMaximum :: "rat option"
  MultipleOf :: "rat option"
  MinLength :: "int option"
  MaxLength :: "int option"
  Pattern :: string
  MinItems :: "int option"
  MaxItems :: "int option"
  UniqueItems :: bool
  Required :: "string list option"
  MinProperties :: "int option"
  MaxProperties :: "int option"
  ReadOnly :: bool
  WriteOnly :: bool
  Deprecated :: bool
  Extensions :: "(string \<times> jvalue) list"
  patternRe :: "string option"
  requiredMap :: "(string \<times> bool) list"
  propertyNames :: "string list"

record messages =
  msgEnum :: string
  msgMinimum :: string
  msgExclusiveMinimum :: string
  msgMaximum :: string
  msgExclusiveMaximum :: string
  msgMultipleOf :: string
  msgMinLength :: string
  msgMaxLength :: string
  msgPattern :: string
  msgMinItems :: string
  msgMaxItems :: string
  msgMinProperties :: string
  msgMaxProperties :: string
  msgRequired :: "(string \<times> string) list option"

text \<open>
  \<open>AdditionalProperties\<close> has type \<open>any\<close>: the code stores nothing, a boolean or a
  \<open>*Schema\<close> (which may be a nil pointer).
\<close>

datatype 's additional = AddlNil | AddlBool bool | AddlSchema "'s option"

datatype Schema =
  Schema (con: constraints) (msg: messages)
         (Items: "Schema option")
         (AdditionalProperties: "Schema additional")
         (Properties: "(string \<times> Schema) list")

text \<open>\<open>Schema{}\<close>: every field at its zero value.\<close>

definition zeroConstraints :: constraints where
  "zeroConstraints =
     \<lparr>Type = [], Title = [], Description = [], Ref = [], Format = [],
      ContentEncoding = [], Default = JNull, Examples = [], Enum = [],
      Minimum = None, ExclusiveMinimum = None, Maximum = None, ExclusiveMaximum = None,
      MultipleOf = None, MinLength = None, MaxLength = None, Pattern = [],
      MinItems = None, MaxItems = None, UniqueItems = False, Required = None,
      MinProperties = None, MaxProperties = None, ReadOnly = False, WriteOnly = False,
      Deprecated = False, Extensions = [], patternRe = None, requiredMap = [],
      propertyNames = []\<rparr>"

definition zeroMessages :: messages where
  "zeroMessages =
     \<lparr>msgEnum = [], msgMinimum = [], msgExclusiveMinimum = [], msgMaximum = [],
      msgExclusiveMaximum = [], msgMultipleOf = [], msgMinLength = [], msgMaxLength = [],
      msgPattern = [], msgMinItems = [], msgMaxItems = [], msgMinProperties = [],
      msgMaxProperties = [], msgRequired = None\<rparr>"

definition zeroSchema :: Schema where
  "zeroSchema = Schema zeroConstraints zeroMessages None AddlNil []"

text \<open>Assignments to the fields of a node.\<close>

definition mapCon :: "(constraints \<Rightarrow> constraints) \<Rightarrow> Schema \<Rightarrow> Schema" where
  "mapCon g s = Schema (g (con s)) (msg s) (Items s) (AdditionalProperties s) (Properties s)"

definition mapMsg :: "(messages \<Rightarrow> messages) \<Rightarrow> Schema \<Rightarrow> Schema" where
  "mapMsg g s = Schema (con s) (g (msg s)) (Items s) (AdditionalProperties s) (Properties s)"

definition setItems :: "Schema option \<Rightarrow> Schema \<Rightarrow> Schema" where
  "setItems i s = Schema (con s) (msg s) i (AdditionalProperties s) (Properties s)"

definition setAdditionalProperties :: "Schema additional \<Rightarrow> Schema \<Rightarrow> Schema" where
  "setAdditionalProperties a s = Schema (con s) (msg s) (Items s) a (Properties s)"

definition setProperties :: "(string \<times> Schema) list \<Rightarrow> Schema \<Rightarrow> Schema" where
  "setProperties ps s = Schema (con s) (msg s) (Items s) (AdditionalProperties s) ps"

section \<open>Precomputed messages\<close>

definition requiredMessage :: "string \<Rightarrow> string" where
  "requiredMessage name = ''expected required property '' @ name @ '' to be present''"

text \<open>The loop of schema.go, line 149: one entry of the table per required name.\<close>

fun setRequiredMessages :: "string list \<Rightarrow> (string \<times> string) list \<Rightarrow> (string \<times> string) list" where
  "setRequiredMessages [] tbl = tbl"
| "setRequiredMessages (name # names) tbl =
     setRequiredMessages names (AList.update name (requiredMessage name) tbl)"

text \<open>
  The messages that need no compilation (schema.go, lines 104 to 127 and 132 to 152):
  a message is assigned only when its constraint is set, and keeps its old value
  otherwise. The table of the required names is created when it is nil.
\<close>

definition numericMessages :: "lib \<Rightarrow> constraints \<Rightarrow> messages \<Rightarrow> messages" where
  "numericMessages L c m =
     m\<lparr>msgEnum := ''expected value to be one of '' @ [CHR 0x22] @
                    Join (map (SprintAny L) (Enum c)) '', '' @ [CHR 0x22],
       msgMinimum :=
         (case Minimum c of
            Some v \<Rightarrow> ''expected number >= '' @ SprintFloat L v | None \<Rightarrow> msgMinimum m),
       msgExclusiveMinimum :=
         (case ExclusiveMinimum c of
            Some v \<Rightarrow> ''expected number > '' @ SprintFloat L v | None \<Rightarrow> msgExclusiveMinimum m),
       msgMaximum :=
         (case Maximum c of
            Some v \<Rightarrow> ''expected number <= '' @ SprintFloat L v | None \<Rightarrow> msgMaximum m),
       msgExclusiveMaximum :=
         (case ExclusiveMaximum c of
            Some v \<Rightarrow> ''expected number < '' @ SprintFloat L v | None \<Rightarrow> msgExclusiveMaximum m),
       msgMultipleOf :=
         (case MultipleOf c of
            Some v \<Rightarrow> ''expected number to be a multiple of '' @ SprintFloat L v
          | None \<Rightarrow> msgMultipleOf m),
       msgMinLength :=
         (case MinLength c of
            Some n \<Rightarrow> ''expected length >= '' @ SprintInt L n | None \<Rightarrow> msgMinLength m),
       msgMaxLength :=
         (case MaxLength c of
            Some n \<Rightarrow> ''expected length <= '' @ SprintInt L n | None \<Rightarrow> msgMaxLength m)\<rparr>"

definition sizeMessages :: "lib \<Rightarrow> constraints \<Rightarrow> messages \<Rightarrow> messages" where
  "sizeMessages L c m =
     m\<lparr>msgMinItems :=
         (case MinItems c of
            Some n \<Rightarrow> ''expected array length >= '' @ SprintInt L n | None \<Rightarrow> msgMinItems m),
       msgMaxItems :=
         (case MaxItems c of
            Some n \<Rightarrow> ''expected array length <= '' @ SprintInt L n | None \<Rightarrow> msgMaxItems m),
       msgMinProperties :=
         (case MinProperties c of
            Some n \<Rightarrow> ''expected object with at least '' @ SprintInt L n @ '' properties''
          | None \<Rightarrow> msgMinProperties m),
       msgMaxProperties :=
         (case MaxProperties c of
            Some n \<Rightarrow> ''expected object with at most '' @ SprintInt L n @ '' properties''
          | None \<Rightarrow> msgMaxProperties m),
       msgRequired :=
         (case Required c of
            Some names \<Rightarrow>
              Some (setRequiredMessages names
                      (case msgRequired m of None \<Rightarrow> [] | Some tbl \<Rightarrow> tbl))
          | None \<Rightarrow> msgRequired m)\<rparr>"

text \<open>
  \<open>PrecomputeMessages\<close> (schema.go, line 103). \<open>regexp.MustCompile\<close> panics on a pattern
  that does not compile; the compiled matcher is kept as the pattern it was built from.
\<close>

definition PrecomputeMessages :: "lib \<Rightarrow> Schema \<Rightarrow> fault + Schema" where
  "PrecomputeMessages L s =
     (let s = mapMsg (numericMessages L (con s)) s in
      andThen
        (if Pattern (con s) \<noteq> [] then
           (case regexpCompile L (Pattern (con s)) of
              Some err \<Rightarrow> Inl (RegexpPanic err)
            | None \<Rightarrow>
                Inr (mapMsg (\<lambda>m. m\<lparr>msgPattern :=
                                        ''expected string to match pattern '' @ Pattern (con s)\<rparr>)
                       (mapCon (\<lambda>c. c\<lparr>patternRe := Some (Pattern c)\<rparr>) s)))
         else Inr s)
        (\<lambda>s. Inr (mapMsg (sizeMessages L (con s)) s)))"

section \<open>Tags\<close>

text \<open>\<open>boolTag\<close>, \<open>intTag\<close>, \<open>floatTag\<close> (schema.go, lines 159 to 192).\<close>

definition boolTag :: "StructField \<Rightarrow> string \<Rightarrow> fault + bool" where
  "boolTag f tag =
     (let v = TagGet f tag in
      if v \<noteq> [] then
        (if v = ''true'' then Inr True
         else if v = ''false'' then Inr False
         else Inl (InvalidBoolTag tag (Name f) v))
      else Inr False)"

definition intTag :: "lib \<Rightarrow> StructField \<Rightarrow> string \<Rightarrow> fault + int option" where
  "intTag L f tag =
     (let v = TagGet f tag in
      if v \<noteq> [] then
        (case Atoi L v of
           Inr i \<Rightarrow> Inr (Some i)
         | Inl err \<Rightarrow> Inl (InvalidIntTag tag (Name f) v err))
      else Inr None)"

definition floatTag :: "lib \<Rightarrow> StructField \<Rightarrow> string \<Rightarrow> fault + rat option" where
  "floatTag L f tag =
     (let v = TagGet f tag in
      if v \<noteq> [] then
        (case ParseFloat L v of
           Inr i \<Rightarrow> Inr (Some i)
         | Inl err \<Rightarrow> Inl (InvalidFloatTag tag (Name f) v err))
      else Inr None)"

text \<open>
  \<open>reflect.TypeOf(v)\<close> for a value that \<open>json.Unmarshal\<close> stored in an \<open>any\<close>:
  \<open>bool\<close>, \<open>float64\<close>, \<open>string\<close>, \<open>[]any\<close> or \<open>map[string]any\<close>; nil has no type.
\<close>

fun TypeOf :: "jvalue \<Rightarrow> gotype option" where
  "TypeOf JNull = None"
| "TypeOf (JBool _) = Some (TBasic Bool)"
| "TypeOf (JNum _) = Some (TBasic Float64)"
| "TypeOf (JStr _) = Some (TBasic String)"
| "TypeOf (JArr _) = Some (TSlice [] (TInterface []))"
| "TypeOf (JObj _) = Some (TMap [] (TBasic String) (TInterface []))"

text \<open>\<open>t.Elem()\<close> panics on a type that has no element type.\<close>

fun Elem :: "gotype \<Rightarrow> fault + gotype" where
  "Elem (TArray _ _ e) = Inr e"
| "Elem (TSlice _ e) = Inr e"
| "Elem (TMap _ _ e) = Inr e"
| "Elem (TPtr e) = Inr e"
| "Elem (TChan e) = Inr e"
| "Elem _ = Inl ReflectPanic"

text \<open>
  The loop of schema.go, line 222: \<open>vv.Index(i).Elem().Type()\<close> panics on a nil element,
  an element that cannot be converted is a fault, the others are converted in order.
\<close>

fun convertElems :: "lib \<Rightarrow> gotype \<Rightarrow> jvalue list \<Rightarrow> fault + jvalue list" where
  "convertElems L te [] = Inr []"
| "convertElems L te (x # xs) =
     (case TypeOf x of
        None \<Rightarrow> Inl ReflectPanic
      | Some tx \<Rightarrow>
          if \<not> ConvertibleTo L tx te then Inl UnableToConvert
          else andThen (convertElems L te xs) (\<lambda>ys. Inr (Convert L x te # ys)))"

text \<open>
  \<open>jsonTagValue\<close> (schema.go, line 194). \<open>value[0]\<close> panics on the empty string;
  \<open>reflect.MakeSlice\<close> panics when \<open>t\<close> is not a slice type. After the loop over a
  slice the value has type \<open>t\<close>, and the last conversion leaves it as it is.
\<close>

definition jsonTagValue :: "lib \<Rightarrow> StructField \<Rightarrow> gotype \<Rightarrow> string \<Rightarrow> fault + jvalue" where
  "jsonTagValue L f t v =
     (if Kind t = String then Inr (JStr v)
      else if Kind t = Slice \<and> (case Elem t of Inr e \<Rightarrow> Kind e = String | Inl _ \<Rightarrow> False)
              \<and> v = [] then Inl IndexOutOfRange
      else if Kind t = Slice \<and> (case Elem t of Inr e \<Rightarrow> Kind e = String | Inl _ \<Rightarrow> False)
              \<and> hd v \<noteq> CHR ''['' then
        Inr (JArr (map (\<lambda>s. JStr (TrimSpace L s)) (splitComma v)))
      else
        (case jsonUnmarshal L v of
           Inl err \<Rightarrow> Inl (InvalidTag (Name f) err)
         | Inr x \<Rightarrow>
             (case TypeOf x of
                None \<Rightarrow> Inr x
              | Some tv \<Rightarrow>
                  if tv = t then Inr x
                  else if Kind tv = Slice then
                    (case (t, x) of
                       (TSlice _ te, JArr xs) \<Rightarrow>
                         andThen (convertElems L te xs) (\<lambda>ys. Inr (JArr ys))
                     | _ \<Rightarrow> Inl ReflectPanic)
                  else if \<not> ConvertibleTo L tv t then Inl UnableToConvert
                  else Inr (Convert L x t))))"

text \<open>\<open>jsonTag\<close> (schema.go, line 242); the parameter \<open>multi\<close> is not used by the code.\<close>

definition jsonTag :: "lib \<Rightarrow> StructField \<Rightarrow> string \<Rightarrow> bool \<Rightarrow> fault + jvalue" where
  "jsonTag L f name multi =
     (let t = FieldType f; v = TagGet f name in
      if v \<noteq> [] then jsonTagValue L f t v else Inr JNull)"

section \<open>The registry\<close>

text \<open>
  \<open>Registry\<close> is an interface, and the synthesizer receives an implementation of it.
  A registry is a record of its methods over its own state \<open>'r\<close>; the method \<open>Schema\<close>
  may build schemas and so returns the new state, or the fault that stopped it.
\<close>

record 'r Registry =
  RegistrySchema :: "'r \<Rightarrow> gotype \<Rightarrow> bool \<Rightarrow> string \<Rightarrow> fault + (Schema option \<times> 'r)"
  SchemaFromRef :: "'r \<Rightarrow> string \<Rightarrow> Schema option"

section \<open>The schema of a field\<close>

text \<open>schema.go, lines 259 to 265.\<close>

definition applyDocTags :: "StructField \<Rightarrow> Schema \<Rightarrow> Schema" where
  "applyDocTags f fs =
     (let fs = mapCon (\<lambda>c. c\<lparr>Description := TagGet f ''doc''\<rparr>) fs;
          fs = (if TagGet f ''format'' \<noteq> []
                then mapCon (\<lambda>c. c\<lparr>Format := TagGet f ''format''\<rparr>) fs else fs);
          fs = (if TagGet f ''encoding'' \<noteq> []
                then mapCon (\<lambda>c. c\<lparr>ContentEncoding := TagGet f ''encoding''\<rparr>) fs else fs)
      in fs)"

text \<open>schema.go, lines 266 to 270.\<close>

definition applyDefaultExample :: "lib \<Rightarrow> StructField \<Rightarrow> Schema \<Rightarrow> fault + Schema" where
  "applyDefaultExample L f fs =
     andThen (jsonTag L f ''default'' False) (\<lambda>d.
     andThen (jsonTag L f ''example'' False) (\<lambda>e.
       Inr (mapCon (\<lambda>c. if e \<noteq> JNull then c\<lparr>Default := d, Examples := [e]\<rparr>
                          else c\<lparr>Default := d\<rparr>) fs)))"

fun enumValues :: "lib \<Rightarrow> StructField \<Rightarrow> gotype \<Rightarrow> string list \<Rightarrow> fault + jvalue list" where
  "enumValues L f fType [] = Inr []"
| "enumValues L f fType (e # es) =
     andThen (jsonTagValue L f fType e) (\<lambda>v.
     andThen (enumValues L f fType es) (\<lambda>vs. Inr (v # vs)))"

text \<open>
  schema.go, lines 272 to 286. For an array schema the members are converted to the
  element type and stored in the item schema; \<open>fs.Items.Enum\<close> panics on a nil \<open>Items\<close>.
\<close>

definition applyEnum :: "lib \<Rightarrow> StructField \<Rightarrow> Schema \<Rightarrow> fault + Schema" where
  "applyEnum L f fs =
     (let enum = TagGet f ''enum'' in
      if enum \<noteq> [] then
        andThen (if Type (con fs) = ''array'' then Elem (FieldType f) else Inr (FieldType f))
          (\<lambda>fType.
        andThen (enumValues L f fType (splitComma enum)) (\<lambda>vs.
          if Type (con fs) = ''array'' then
            (case Items fs of
               None \<Rightarrow> Inl NilDereference
             | Some it \<Rightarrow> Inr (setItems (Some (mapCon (\<lambda>c. c\<lparr>Enum := vs\<rparr>) it)) fs))
          else Inr (mapCon (\<lambda>c. c\<lparr>Enum := vs\<rparr>) fs)))
      else Inr fs)"

text \<open>schema.go, lines 287 to 302, in the order of the source.\<close>

definition applyBounds :: "lib \<Rightarrow> StructField \<Rightarrow> Schema \<Rightarrow> fault + Schema" where
  "applyBounds L f fs =
     andThen (floatTag L f ''minimum'') (\<lambda>mn.
     andThen (floatTag L f ''exclusiveMinimum'') (\<lambda>emn.
     andThen (floatTag L f ''maximum'') (\<lambda>mx.
     andThen (floatTag L f ''exclusiveMaximum'') (\<lambda>emx.
     andThen (floatTag L f ''multipleOf'') (\<lambda>mo.
     andThen (intTag L f ''minLength'') (\<lambda>mnl.
     andThen (intTag L f ''maxLength'') (\<lambda>mxl.
     andThen (intTag L f ''minItems'') (\<lambda>mni.
     andThen (intTag L f ''maxItems'') (\<lambda>mxi.
     andThen (boolTag f ''uniqueItems'') (\<lambda>uq.
     andThen (intTag L f ''minProperties'') (\<lambda>mnp.
     andThen (intTag L f ''maxProperties'') (\<lambda>mxp.
     andThen (boolTag f ''readOnly'') (\<lambda>ro.
     andThen (boolTag f ''writeOnly'') (\<lambda>wo.
     andThen (boolTag f ''deprecated'') (\<lambda>dp.
       Inr (mapCon (\<lambda>c. c\<lparr>Minimum := mn, ExclusiveMinimum := emn, Maximum := mx,
                              ExclusiveMaximum := emx, MultipleOf := mo, MinLength := mnl,
                              MaxLength := mxl, Pattern := TagGet f ''pattern'',
                              MinItems := mni, MaxItems := mxi, UniqueItems := uq,
                              MinProperties := mnp, MaxProperties := mxp, ReadOnly := ro,
                              WriteOnly := wo, Deprecated := dp\<rparr>) fs))))))))))))))))"

text \<open>
  \<open>SchemaFromField\<close> (schema.go, line 250). A nil \<open>parent\<close> is \<open>None\<close>. A field for
  whose type the registry has no schema has none either, whatever its tags say.
\<close>

definition SchemaFromField ::
    "lib \<Rightarrow> 'r Registry \<Rightarrow> 'r \<Rightarrow> gotype option \<Rightarrow> StructField \<Rightarrow> fault + (Schema option \<times> 'r)" where
  "SchemaFromField L registry st parent f =
     (let parentName = (case parent of None \<Rightarrow> [] | Some p \<Rightarrow> TypeName p) in
      andThen (RegistrySchema registry st (FieldType f) True (parentName @ Name f @ ''Struct''))
        (\<lambda>(r, st').
           case r of
             None \<Rightarrow> Inr (None, st')
           | Some fs \<Rightarrow>
               andThen (applyDefaultExample L f (applyDocTags f fs)) (\<lambda>fs.
               andThen (applyEnum L f fs) (\<lambda>fs.
               andThen (applyBounds L f fs) (\<lambda>fs.
               andThen (PrecomputeMessages L fs) (\<lambda>fs. Inr (Some fs, st')))))))"

section \<open>The schema of a type\<close>

text \<open>The four collections that the struct case of \<open>SchemaFromType\<close> fills.\<close>

record structAcc =
  required :: "string list"
  requiredMapAcc :: "(string \<times> bool) list"
  propNames :: "string list"
  props :: "(string \<times> Schema) list"

definition emptyAcc :: structAcc where
  "emptyAcc = \<lparr>required = [], requiredMapAcc = [], propNames = [], props = []\<rparr>"

text \<open>The serialized name of a field and whether it may be left out (schema.go, lines 435 to 442).\<close>

definition fieldName :: "StructField \<Rightarrow> string" where
  "fieldName f =
     (let j = TagGet f ''json'' in
      if j \<noteq> [] then (case splitComma j of [] \<Rightarrow> [] | w # _ \<Rightarrow> w) else Name f)"

definition fieldOmit :: "StructField \<Rightarrow> bool" where
  "fieldOmit f = (let j = TagGet f ''json'' in j \<noteq> [] \<and> Contains j ''omitempty'')"

text \<open>The loop over the fields (schema.go, lines 432 to 462).\<close>

fun structLoop ::
    "lib \<Rightarrow> 'r Registry \<Rightarrow> fieldInfo list \<Rightarrow> structAcc \<Rightarrow> 'r \<Rightarrow> fault + (structAcc \<times> 'r)" where
  "structLoop L r [] acc st = Inr (acc, st)"
| "structLoop L r (info # infos) acc st =
     (let f = Field info; name = fieldName f; omit = fieldOmit f in
      if name = ''-'' then structLoop L r infos acc st
      else if map_of (props acc) name \<noteq> None then structLoop L r infos acc st
      else
        andThen (SchemaFromField L r st (Some (Parent info)) f) (\<lambda>(fs, st').
          case fs of
            None \<Rightarrow> structLoop L r infos acc st'
          | Some s \<Rightarrow>
              structLoop L r infos
                (acc\<lparr>props := AList.update name s (props acc),
                     propNames := propNames acc @ [name],
                     required := (if \<not> omit then required acc @ [name] else required acc),
                     requiredMapAcc := (if \<not> omit then AList.update name True (requiredMapAcc acc)
                                        else requiredMapAcc acc)\<rparr>)
                st'))"

text \<open>The scalar cases of the switch (schema.go, lines 360 to 400); nil for any other kind.\<close>

definition typed :: "string \<Rightarrow> string \<Rightarrow> Schema" where
  "typed ty fmt = mapCon (\<lambda>c. c\<lparr>Type := ty, Format := fmt\<rparr>) zeroSchema"

definition withMinZero :: "Schema \<Rightarrow> Schema" where
  "withMinZero s = mapCon (\<lambda>c. c\<lparr>Minimum := Some 0\<rparr>) s"

definition nativeFormat :: "lib \<Rightarrow> string" where
  "nativeFormat L = (if UintSize L = 32 then ''int32'' else ''int64'')"

fun scalarSchema :: "lib \<Rightarrow> kind \<Rightarrow> Schema option" where
  "scalarSchema L Bool = Some (typed ''boolean'' [])"
| "scalarSchema L IntK = Some (typed ''integer'' (nativeFormat L))"
| "scalarSchema L Int8 = Some (typed ''integer'' ''int32'')"
| "scalarSchema L Int16 = Some (typed ''integer'' ''int32'')"
| "scalarSchema L Int32 = Some (typed ''integer'' ''int32'')"
| "scalarSchema L Int64 = Some (typed ''integer'' ''int64'')"
| "scalarSchema L Uint = Some (withMinZero (typed ''integer'' (nativeFormat L)))"
| "scalarSchema L Uint8 = Some (withMinZero (typed ''integer'' ''int32''))"
| "scalarSchema L Uint16 = Some (withMinZero (typed ''integer'' ''int32''))"
| "scalarSchema L Uint32 = Some (withMinZero (typed ''integer'' ''int32''))"
| "scalarSchema L Uint64 = Some (withMinZero (typed ''integer'' ''int64''))"
| "scalarSchema L Float32 = Some (typed ''number'' ''float'')"
| "scalarSchema L Float64 = Some (typed ''number'' ''double'')"
| "scalarSchema L String = Some (typed ''string'' [])"
| "scalarSchema L _ = None"

text \<open>The case of a slice or an array (schema.go, lines 401 to 415).\<close>

definition sequenceSchema ::
    "'r Registry \<Rightarrow> 'r \<Rightarrow> gotype \<Rightarrow> gotype \<Rightarrow> fault + (Schema option \<times> 'r)" where
  "sequenceSchema r st t e =
     (if Kind e = Uint8 then
        Inr (Some (mapCon (\<lambda>c. c\<lparr>Type := ''string'', ContentEncoding := ''base64''\<rparr>) zeroSchema), st)
      else
        andThen (RegistrySchema r st e True (TypeName t @ ''Item'')) (\<lambda>(items, st').
          let s = setItems items (mapCon (\<lambda>c. c\<lparr>Type := ''array''\<rparr>) zeroSchema) in
          Inr (Some (case t of
                       TArray _ len _ \<Rightarrow>
                         mapCon (\<lambda>c. c\<lparr>MinItems := Some (int len), MaxItems := Some (int len)\<rparr>) s
                     | _ \<Rightarrow> s), st')))"

text \<open>The case of a struct that is neither a time nor a URL (schema.go, lines 428 to 469).\<close>

definition structSchema ::
    "lib \<Rightarrow> 'r Registry \<Rightarrow> 'r \<Rightarrow> gotype \<Rightarrow> fault + (Schema option \<times> 'r)" where
  "structSchema L r st t =
     andThen (structLoop L r (getFields t) emptyAcc st) (\<lambda>(acc, st').
     andThen (PrecomputeMessages L
                (setProperties (props acc)
                  (setAdditionalProperties (AddlBool False)
                    (mapCon (\<lambda>c. c\<lparr>Type := ''object'', propertyNames := propNames acc,
                                           Required := Some (required acc),
                                           requiredMap := requiredMapAcc acc\<rparr>) zeroSchema))))
       (\<lambda>s. Inr (Some s, st')))"

text \<open>\<open>SchemaFromType\<close> (schema.go, line 349); nil is \<open>None\<close>.\<close>

definition SchemaFromType ::
    "lib \<Rightarrow> 'r Registry \<Rightarrow> 'r \<Rightarrow> gotype \<Rightarrow> fault + (Schema option \<times> 'r)" where
  "SchemaFromType L r st t0 =
     (let t = deref t0 in
      if t = ipType then Inr (Some (typed ''string'' ''ipv4''), st)
      else
        (case t of
           TBasic k \<Rightarrow> Inr (scalarSchema L k, st)
         | TSlice _ e \<Rightarrow> sequenceSchema r st t e
         | TArray _ _ e \<Rightarrow> sequenceSchema r st t e
         | TMap _ _ e \<Rightarrow>
             andThen (RegistrySchema r st e True (TypeName t @ ''Value'')) (\<lambda>(v, st').
               Inr (Some (setAdditionalProperties (AddlSchema v)
                            (mapCon (\<lambda>c. c\<lparr>Type := ''object''\<rparr>) zeroSchema)), st'))
         | TStruct _ _ \<Rightarrow>
             if t = timeType then Inr (Some (typed ''string'' ''date-time''), st)
             else if t = urlType then Inr (Some (typed ''string'' ''uri''), st)
             else structSchema L r st t
         | TInterface _ \<Rightarrow> Inr (Some zeroSchema, st)
         | _ \<Rightarrow> Inr (None, st)))"

section \<open>The validator\<close>

text \<open>
  \<open>validate.go\<close> is not among the sources; only its tests are (validate_test.go). The
  definitions of this section are modelled from section 4.3 of the specification.
\<close>

datatype ValidateMode = ModeReadFromServer | ModeWriteToServer

text \<open>
  \<open>ModeReadFromServer\<close> is the specification's server-to-client mode and
  \<open>ModeWriteToServer\<close> its client-to-server mode (the names are those of the tests).
  The content of a \<open>PathBuffer\<close> is the list of the segments pushed and not yet popped;
  the specification does not fix how they are written as one string.
\<close>

datatype segment = Key string | Index nat

record ErrorDetail =
  Location :: "segment list"
  Message :: string
  Value :: jvalue

definition isWhole :: "rat \<Rightarrow> bool" where
  "isWhole x = (snd (quotient_of x) = 1)"

text \<open>
  Modelled from the spec: the type check of \<open>Validate\<close> (validate.go). A value whose kind
  is not the schema's type gives the violation "expected <type>"; a whole number is
  accepted for an integer schema. By the tests (validate_test.go, line 48) a value that
  is no number gives "expected number" for an integer schema too. A schema without a
  type matches any value.
\<close>

definition typeError :: "Schema \<Rightarrow> jvalue \<Rightarrow> string option" where
  "typeError s v =
     (let ty = Type (con s) in
      if ty = ''boolean'' then (case v of JBool _ \<Rightarrow> None | _ \<Rightarrow> Some ''expected boolean'')
      else if ty = ''number'' then (case v of JNum _ \<Rightarrow> None | _ \<Rightarrow> Some ''expected number'')
      else if ty = ''integer'' then
        (case v of
           JNum x \<Rightarrow> if isWhole x then None else Some ''expected integer''
         | _ \<Rightarrow> Some ''expected number'')
      else if ty = ''string'' then (case v of JStr _ \<Rightarrow> None | _ \<Rightarrow> Some ''expected string'')
      else if ty = ''array'' then (case v of JArr _ \<Rightarrow> None | _ \<Rightarrow> Some ''expected array'')
      else if ty = ''object'' then (case v of JObj _ \<Rightarrow> None | _ \<Rightarrow> Some ''expected object'')
      else None)"

definition violation :: "segment list \<Rightarrow> string \<Rightarrow> jvalue \<Rightarrow> ErrorDetail" where
  "violation path m v = \<lparr>Location = path, Message = m, Value = v\<rparr>"

text \<open>
  Modelled from the spec: the numeric checks of \<open>Validate\<close> (validate.go). Bounds are
  compared directly; the test for a multiple is the library's tolerant one. The messages
  are the precomputed ones.
\<close>

definition numericViolations :: "lib \<Rightarrow> Schema \<Rightarrow> segment list \<Rightarrow> rat \<Rightarrow> ErrorDetail list" where
  "numericViolations L s path x =
     (case Minimum (con s) of
        Some b \<Rightarrow> if x < b then [violation path (msgMinimum (msg s)) (JNum x)] else []
      | None \<Rightarrow> []) @
     (case ExclusiveMinimum (con s) of
        Some b \<Rightarrow> if x \<le> b then [violation path (msgExclusiveMinimum (msg s)) (JNum x)] else []
      | None \<Rightarrow> []) @
     (case Maximum (con s) of
        Some b \<Rightarrow> if b < x then [violation path (msgMaximum (msg s)) (JNum x)] else []
      | None \<Rightarrow> []) @
     (case ExclusiveMaximum (con s) of
        Some b \<Rightarrow> if b \<le> x then [violation path (msgExclusiveMaximum (msg s)) (JNum x)] else []
      | None \<Rightarrow> []) @
     (case MultipleOf (con s) of
        Some b \<Rightarrow> if \<not> isMultipleOf L x b
                  then [violation path (msgMultipleOf (msg s)) (JNum x)] else []
      | None \<Rightarrow> [])"

text \<open>
  Modelled from the spec: the string checks of \<open>Validate\<close> (validate.go). The length is
  counted in characters; the pattern is matched by the compiled matcher; a base64 string
  is decoded, and a failure gives "expected string to be base64 encoded"; the format's
  validator gives the message of a value that breaks the format.
\<close>

definition stringViolations :: "lib \<Rightarrow> Schema \<Rightarrow> segment list \<Rightarrow> string \<Rightarrow> ErrorDetail list" where
  "stringViolations L s path x =
     (case MinLength (con s) of
        Some n \<Rightarrow> if int (RuneCount L x) < n
                  then [violation path (msgMinLength (msg s)) (JStr x)] else []
      | None \<Rightarrow> []) @
     (case MaxLength (con s) of
        Some n \<Rightarrow> if n < int (RuneCount L x)
                  then [violation path (msgMaxLength (msg s)) (JStr x)] else []
      | None \<Rightarrow> []) @
     (case patternRe (con s) of
        Some p \<Rightarrow> if \<not> regexpMatch L p x
                  then [violation path (msgPattern (msg s)) (JStr x)] else []
      | None \<Rightarrow> []) @
     (if ContentEncoding (con s) = ''base64'' \<and> base64Decode L x = None
      then [violation path ''expected string to be base64 encoded'' (JStr x)] else []) @
     (if Format (con s) \<noteq> [] then
        (case formatError L (Format (con s)) x of
           Some m \<Rightarrow> [violation path m (JStr x)]
         | None \<Rightarrow> [])
      else [])"

text \<open>
  Modelled from the spec: the checks of \<open>Validate\<close> (validate.go) on an array and on an
  object that look at no element: the bounds on the length and the uniqueness of the
  items (equal items have equal serialized forms), and the bounds on the number of
  properties.
\<close>

definition arrayViolations :: "Schema \<Rightarrow> segment list \<Rightarrow> jvalue list \<Rightarrow> ErrorDetail list" where
  "arrayViolations s path xs =
     (case MinItems (con s) of
        Some n \<Rightarrow> if int (length xs) < n
                  then [violation path (msgMinItems (msg s)) (JArr xs)] else []
      | None \<Rightarrow> []) @
     (case MaxItems (con s) of
        Some n \<Rightarrow> if n < int (length xs)
                  then [violation path (msgMaxItems (msg s)) (JArr xs)] else []
      | None \<Rightarrow> []) @
     (if UniqueItems (con s) \<and> \<not> distinct xs
      then [violation path ''expected array items to be unique'' (JArr xs)] else [])"

definition objectViolations :: "Schema \<Rightarrow> segment list \<Rightarrow> (string \<times> jvalue) list \<Rightarrow> ErrorDetail list" where
  "objectViolations s path m =
     (case MinProperties (con s) of
        Some n \<Rightarrow> if int (length m) < n
                  then [violation path (msgMinProperties (msg s)) (JObj m)] else []
      | None \<Rightarrow> []) @
     (case MaxProperties (con s) of
        Some n \<Rightarrow> if n < int (length m)
                  then [violation path (msgMaxProperties (msg s)) (JObj m)] else []
      | None \<Rightarrow> [])"

text \<open>
  Modelled from the spec: the enum check of \<open>Validate\<close> (validate.go): the value must equal
  a member; the message is the precomputed list of the members.
\<close>

definition enumViolations :: "Schema \<Rightarrow> segment list \<Rightarrow> jvalue \<Rightarrow> ErrorDetail list" where
  "enumViolations s path v =
     (if Enum (con s) \<noteq> [] \<and> v \<notin> set (Enum (con s))
      then [violation path (msgEnum (msg s)) v] else [])"

text \<open>
  Modelled from the spec: the requiredness of a property in a mode (validate.go). In
  server-to-client mode a read-only property is required, as are the names of the
  required-name lookup set; in client-to-server mode a read-only property is not
  required, whatever the lookup set says.
\<close>

definition requiredIn :: "ValidateMode \<Rightarrow> Schema \<Rightarrow> string \<Rightarrow> Schema \<Rightarrow> bool" where
  "requiredIn mode s k p =
     (case mode of
        ModeReadFromServer \<Rightarrow> map_of (requiredMap (con s)) k = Some True \<or> ReadOnly (con p)
      | ModeWriteToServer \<Rightarrow> map_of (requiredMap (con s)) k = Some True \<and> \<not> ReadOnly (con p))"

text \<open>
  Modelled from the spec: the zero value that a write-only property may carry in
  server-to-client mode (validate.go): nil, false, the number zero and the empty string.
  A decoded array or object is never the nil slice or map, so it is not a zero value.
\<close>

fun isZero :: "jvalue \<Rightarrow> bool" where
  "isZero JNull = True"
| "isZero (JBool b) = (\<not> b)"
| "isZero (JNum x) = (x = 0)"
| "isZero (JStr x) = (x = [])"
| "isZero (JArr _) = False"
| "isZero (JObj _) = False"

text \<open>
  Modelled from the spec: a schema that carries a reference stands for the schema that
  the registry stores under it (validate.go).
\<close>

definition resolveRef :: "'r Registry \<Rightarrow> 'r \<Rightarrow> Schema \<Rightarrow> Schema option" where
  "resolveRef r st s = (if Ref (con s) = [] then Some s else SchemaFromRef r st (Ref (con s)))"

lemma size_map_of_value:
  "map_of m k = Some x \<Longrightarrow> size x < Suc (size_list (size_prod (\<lambda>_. 0) size) m)"
  by (induction m) (auto split: if_splits)

lemma size_entry_value:
  "(k, x) \<in> set m \<Longrightarrow> size x < Suc (size_list (size_prod (\<lambda>_. 0) size) m)"
  by (induction m) auto

lemma size_element:
  "x \<in> set xs \<Longrightarrow> size x < Suc (size_list size xs)"
  by (induction xs) auto

lemma size_zip_element:
  "(i, x) \<in> set (zip js xs) \<Longrightarrow> size x < Suc (size_list size xs)"
  by (auto dest: set_zip_rightD size_element)

text \<open>
  Modelled from the spec: \<open>Validate\<close> (validate.go). The result is the list of the
  violations that \<open>Validate\<close> appends to the \<open>ValidateResult\<close>, in order. A type mismatch
  is the only violation of its node. An array's elements are validated against
  \<open>Items\<close> with the index pushed. For an object, each declared property is looked at
  in turn: an absent one that the mode requires gives the message precomputed for its
  name, "expected required property <name> to be present"; a present one that is
  write-only and not zero gives "write only property is non-zero" in server-to-client
  mode, and is validated with its key pushed. Then each key that is not declared gives
  "unexpected property" when additional properties are forbidden, and every value is
  validated against the schema of the additional properties when there is one.
\<close>

function Validate ::
    "lib \<Rightarrow> 'r Registry \<Rightarrow> 'r \<Rightarrow> Schema \<Rightarrow> segment list \<Rightarrow> ValidateMode \<Rightarrow> jvalue
     \<Rightarrow> ErrorDetail list" where
  "Validate L r st s0 path mode v =
     (case resolveRef r st s0 of
        None \<Rightarrow> []
      | Some s \<Rightarrow>
          (case typeError s v of
             Some m \<Rightarrow> [violation path m v]
           | None \<Rightarrow>
               (case v of
                  JNum x \<Rightarrow>
                    if Type (con s) = ''number'' \<or> Type (con s) = ''integer''
                    then numericViolations L s path x else []
                | JStr x \<Rightarrow>
                    if Type (con s) = ''string'' then stringViolations L s path x else []
                | JArr xs \<Rightarrow>
                    if Type (con s) = ''array'' then
                      arrayViolations s path xs @
                      (case Items s of
                         None \<Rightarrow> []
                       | Some it \<Rightarrow>
                           concat (map (\<lambda>(i, x). Validate L r st it (path @ [Index i]) mode x)
                                       (zip [0..<length xs] xs)))
                    else []
                | JObj m \<Rightarrow>
                    if Type (con s) = ''object'' then
                      objectViolations s path m @
                      concat (map (\<lambda>(k, p).
                                (case map_of m k of
                                   None \<Rightarrow>
                                     if requiredIn mode s k p
                                     then [violation path (requiredMessage k) (JObj m)] else []
                                 | Some x \<Rightarrow>
                                     (if mode = ModeReadFromServer \<and> WriteOnly (con p)
                                         \<and> \<not> isZero x
                                      then [violation (path @ [Key k])
                                              ''write only property is non-zero'' x]
                                      else []) @
                                     Validate L r st p (path @ [Key k]) mode x))
                              (Properties s)) @
                      (if AdditionalProperties s = AddlBool False then
                         concat (map (\<lambda>(k, x).
                                   if map_of (Properties s) k = None
                                   then [violation (path @ [Key k]) ''unexpected property'' x]
                                   else [])
                                 m)
                       else []) @
                      (case AdditionalProperties s of
                         AddlSchema (Some a) \<Rightarrow>
                           concat (map (\<lambda>(k, x). Validate L r st a (path @ [Key k]) mode x) m)
                       | _ \<Rightarrow> [])
                    else []
                | _ \<Rightarrow> []) @
               enumViolations s path v))"
  by pat_completeness auto

termination Validate
proof (relation "measure (\<lambda>(L, r, st, s, path, mode, v). size v)")
  show "wf (measure (\<lambda>(L, r, st, s, path, mode, v). size v))" by simp
qed (auto dest: size_zip_element size_map_of_value size_entry_value)

declare Validate.simps [simp del]

section \<open>A library and a registry for the examples\<close>

text \<open>
  The examples below run the synthesizer on a 64-bit platform with a small library: the
  parsers know the few texts the examples use and reject every other text, a pattern
  compiles unless it ends inside a bracket expression, and base64 text is text of
  letters and digits whose length is a multiple of four.
\<close>

definition exampleCompile :: "string \<Rightarrow> string option" where
  "exampleCompile p =
     (if CHR ''['' \<in> set p \<and> CHR '']'' \<notin> set p
      then Some ''error parsing regexp: missing closing ]'' else None)"

definition exampleBase64 :: "string \<Rightarrow> string option" where
  "exampleBase64 v =
     (if length v mod 4 = 0 \<and> list_all (\<lambda>c. c \<noteq> CHR ''!'' \<and> c \<noteq> CHR '' '') v
      then Some v else None)"

definition exampleLib :: lib where
  "exampleLib =
     \<lparr>UintSize = 64,
      Atoi = (\<lambda>v. case map_of [(''0'', 0), (''1'', 1), (''2'', 2)] v of
                      Some i \<Rightarrow> Inr i | None \<Rightarrow> Inl ''invalid syntax''),
      ParseFloat = (\<lambda>v. case map_of [(''0'', 0), (''1'', 1), (''5'', 5)] v of
                      Some x \<Rightarrow> Inr x | None \<Rightarrow> Inl ''invalid syntax''),
      jsonUnmarshal = (\<lambda>v. case map_of [(''true'', JBool True), (''1'', JNum 1),
                                              (''null'', JNull)] v of
                      Some x \<Rightarrow> Inr x | None \<Rightarrow> Inl ''invalid character''),
      ConvertibleTo = (\<lambda>a b. a = b \<or> Kind b = Interface
                         \<or> (a = TBasic Float64 \<and> b \<in> set (map TBasic
                               [IntK, Int8, Int16, Int32, Int64, Uint, Uint8, Uint16, Uint32,
                                Uint64, Float32]))),
      Convert = (\<lambda>v t. v),
      TrimSpace = filter (\<lambda>c. c \<noteq> CHR '' ''),
      regexpCompile = exampleCompile,
      regexpMatch = (\<lambda>p v. True),
      SprintFloat = (\<lambda>x. if x = 0 then ''0'' else if x = 1 then ''1'' else ''5''),
      SprintInt = (\<lambda>i. if i = 0 then ''0'' else if i = 1 then ''1'' else ''2''),
      SprintAny = (\<lambda>v. case v of JStr x \<Rightarrow> x | _ \<Rightarrow> ''?''),
      RuneCount = length,
      base64Decode = exampleBase64,
      formatError = (\<lambda>fmt v. None),
      isMultipleOf = (\<lambda>x m. m \<noteq> 0 \<and> snd (quotient_of (x / m)) = 1)\<rparr>"

text \<open>
  A registry without a store: it builds the schema of every type in place, to a depth of
  \<open>n\<close> nested types, and has no schema below that depth; it resolves no reference.
\<close>

fun inlineRegistry :: "lib \<Rightarrow> nat \<Rightarrow> unit Registry" where
  "inlineRegistry L 0 =
     \<lparr>RegistrySchema = (\<lambda>st t allowRef hint. Inr (None, st)),
      SchemaFromRef = (\<lambda>st ref. None)\<rparr>"
| "inlineRegistry L (Suc n) =
     \<lparr>RegistrySchema = (\<lambda>st t allowRef hint. SchemaFromType L (inlineRegistry L n) st t),
      SchemaFromRef = (\<lambda>st ref. None)\<rparr>"

section \<open>Notions used by the properties\<close>

text \<open>The names of \<open>Required\<close>, none for a nil list.\<close>

definition requiredNames :: "Schema \<Rightarrow> string list" where
  "requiredNames s = (case Required (con s) of None \<Rightarrow> [] | Some req \<Rightarrow> req)"

text \<open>
  The invariant of the loop over the fields: every required name has a property, the
  lookup set holds the required names and nothing else, the list of the property names
  is the list of the keys of the properties, and no name occurs twice.
\<close>

definition accInv :: "structAcc \<Rightarrow> bool" where
  "accInv acc \<longleftrightarrow>
     set (required acc) \<subseteq> fst ` set (props acc)
     \<and> (\<forall>k. (map_of (requiredMapAcc acc) k = Some True) = (k \<in> set (required acc)))
     \<and> (\<forall>k. map_of (requiredMapAcc acc) k \<noteq> Some False)
     \<and> propNames acc = map fst (props acc)
     \<and> distinct (map fst (props acc))
     \<and> distinct (required acc)"

text \<open>A struct of the examples: one required field and one that may be left out.\<close>

definition exampleStruct :: gotype where
  "exampleStruct = TStruct ''Example''
     [StructField ''Value'' True False (TBasic String) [(''json'', ''value'')],
      StructField ''Other'' True False (TBasic IntK) [(''json'', ''other,omitempty'')]]"





definition deepStruct :: gotype where
  "deepStruct = TStruct ''A''
     [StructField ''B'' True True
        (TStruct ''B'' [StructField ''D'' True True
           (TStruct ''D'' [StructField ''X'' True False (TBasic IntK) []]) []]) [],
      StructField ''C'' True True
        (TStruct ''C'' [StructField ''X'' True False (TBasic String) []]) []]"








section \<open>Properties of the synthesizer\<close>

lemma deref_funpow: "deref ((TPtr ^^ n) t) = deref t"
  by (induction n) auto

lemma deref_idem: "deref (deref t) = deref t"
  by (induction t rule: deref.induct) auto

lemma SchemaFromType_deref: "SchemaFromType L r st t = SchemaFromType L r st (deref t)"
  by (simp add: SchemaFromType_def deref_idem)

text \<open>
  Claim C10. Pointers are transparent to the synthesizer: a type under any number of
  pointers has the schema (and leaves the registry in the state, or stops with the
  fault) of the type with every pointer stripped; so a pointer to \<open>t\<close> has the schema of
  \<open>t\<close>.
\<close>

theorem SchemaFromType_pointer_transparent:
  "SchemaFromType L r st ((TPtr ^^ n) t) = SchemaFromType L r st (deref t)
   \<and> SchemaFromType L r st (TPtr t) = SchemaFromType L r st t"
  by (metis SchemaFromType_deref deref_funpow deref.simps(1))

lemma SchemaFromType_slice:
  "TSlice n e \<noteq> ipType \<Longrightarrow>
   SchemaFromType L r st (TSlice n e) = sequenceSchema r st (TSlice n e) e"
  by (simp add: SchemaFromType_def)

lemma SchemaFromType_array:
  "SchemaFromType L r st (TArray n len e) = sequenceSchema r st (TArray n len e) e"
  by (simp add: SchemaFromType_def ipType_def)

lemma not_byte_not_ip: "Kind e \<noteq> Uint8 \<Longrightarrow> TSlice n e \<noteq> ipType"
  by (auto simp: ipType_def)

text \<open>
  Claim C7, as stated, fails on \<open>uintptr\<close>: it is an unsigned integer type, the switch
  has no case for its kind, and the synthesizer returns nil for it.
\<close>

theorem uintptr_counterexample:
  "SchemaFromType exampleLib (inlineRegistry exampleLib 0) () (TBasic Uintptr) = Inr (None, ())
   \<and> \<not> (\<exists>s st. SchemaFromType exampleLib (inlineRegistry exampleLib 0) () (TBasic Uintptr)
                  = Inr (Some s, st))"
  by (simp add: SchemaFromType_def ipType_def)

text \<open>
  Claim C7, amended. Each of the unsigned integer kinds other than \<open>uintptr\<close>, that is
  \<open>uint\<close>, \<open>uint8\<close>, \<open>uint16\<close>, \<open>uint32\<close> and \<open>uint64\<close>, has an integer schema with
  minimum 0; the format is \<open>int32\<close> for the widths 8, 16 and 32, \<open>int64\<close> for the width
  64, and for \<open>uint\<close> the one of the platform's word size (\<open>int32\<close> on a 32-bit
  platform, \<open>int64\<close> otherwise).
\<close>

theorem unsigned_integer_schema:
  assumes "k \<in> set [Uint, Uint8, Uint16, Uint32, Uint64]"
  shows "\<exists>s. SchemaFromType L r st (TBasic k) = Inr (Some s, st)
           \<and> Type (con s) = ''integer''
           \<and> Minimum (con s) = Some 0
           \<and> Format (con s) =
                 (if k = Uint8 \<or> k = Uint16 \<or> k = Uint32 then ''int32''
                  else if k = Uint64 then ''int64''
                  else if UintSize L = 32 then ''int32'' else ''int64'')"
  using assms
  by (auto simp: SchemaFromType_def ipType_def withMinZero_def typed_def mapCon_def
        zeroSchema_def nativeFormat_def zeroConstraints_def)

theorem unsigned_integer_schema_witness:
  "\<exists>s. SchemaFromType exampleLib (inlineRegistry exampleLib 0) () (TBasic Uint) = Inr (Some s, ())
       \<and> Type (con s) = ''integer'' \<and> Minimum (con s) = Some 0 \<and> Format (con s) = ''int64''"
  using unsigned_integer_schema [of Uint exampleLib "inlineRegistry exampleLib 0" "()"]
  by (simp add: exampleLib_def)

text \<open>
  Claim C6, as stated, fails on an array of bytes: \<open>[4]uint8\<close> has a string schema and
  no bound on the number of items.
\<close>

theorem byte_array_counterexample:
  "\<not> (\<exists>s st. SchemaFromType exampleLib (inlineRegistry exampleLib 1) ()
                  (TArray [] 4 (TBasic Uint8)) = Inr (Some s, st)
              \<and> Type (con s) = ''array''
              \<and> MinItems (con s) = Some 4 \<and> MaxItems (con s) = Some 4)"
  by (simp add: SchemaFromType_array sequenceSchema_def mapCon_def zeroSchema_def
        zeroConstraints_def)

text \<open>
  Claim C6, amended. For an element type whose kind is not \<open>uint8\<close>, and when the
  registry returns \<open>items\<close> for the element type: an array type of that element has an
  array schema with \<open>Items = items\<close> and \<open>MinItems\<close> and \<open>MaxItems\<close> both equal to the
  array's length; a slice type of that element has an array schema with
  \<open>Items = items\<close> and neither bound.
\<close>

theorem sequence_schema:
  assumes "Kind e \<noteq> Uint8"
      and "RegistrySchema r st e True (n @ ''Item'') = Inr (items, st')"
  shows "(\<exists>s. SchemaFromType L r st (TArray n len e) = Inr (Some s, st')
            \<and> Type (con s) = ''array'' \<and> Items s = items
            \<and> MinItems (con s) = Some (int len) \<and> MaxItems (con s) = Some (int len))
       \<and> (\<exists>s. SchemaFromType L r st (TSlice n e) = Inr (Some s, st')
            \<and> Type (con s) = ''array'' \<and> Items s = items
            \<and> MinItems (con s) = None \<and> MaxItems (con s) = None)"
  using assms
  by (simp add: SchemaFromType_array SchemaFromType_slice not_byte_not_ip sequenceSchema_def
        andThen_def mapCon_def setItems_def zeroSchema_def zeroConstraints_def)

theorem sequence_schema_witness:
  "(\<exists>s. SchemaFromType exampleLib (inlineRegistry exampleLib 1) ()
            (TArray [] 3 (TBasic String)) = Inr (Some s, ())
        \<and> Type (con s) = ''array'' \<and> Items s = Some (typed ''string'' [])
        \<and> MinItems (con s) = Some 3 \<and> MaxItems (con s) = Some 3)
   \<and> (\<exists>s. SchemaFromType exampleLib (inlineRegistry exampleLib 1) ()
            (TSlice [] (TBasic String)) = Inr (Some s, ())
        \<and> Type (con s) = ''array'' \<and> Items s = Some (typed ''string'' [])
        \<and> MinItems (con s) = None \<and> MaxItems (con s) = None)"
  using sequence_schema [of "TBasic String" "inlineRegistry exampleLib 1" "()" "[]"
                            "Some (typed ''string'' [])" "()" exampleLib 3]
  by (simp add: SchemaFromType_def ipType_def numeral_eq_Suc)

section \<open>Properties of the validator\<close>

lemma base64Schema_Validate:
  assumes "s = mapCon (\<lambda>c. c\<lparr>Type := ''string'', ContentEncoding := ''base64''\<rparr>) zeroSchema"
  shows "Validate L r st s path mode (JStr x) =
     (if base64Decode L x = None
      then [violation path ''expected string to be base64 encoded'' (JStr x)] else [])"
  unfolding assms
  by (subst Validate.simps)
     (simp add: resolveRef_def typeError_def stringViolations_def enumViolations_def
        mapCon_def zeroSchema_def zeroConstraints_def)

lemma byteSequence_schema:
  assumes "Kind e = Uint8" "t = TSlice n e \<or> t = TArray n len e" "t \<noteq> ipType"
  shows "SchemaFromType L r st t =
     Inr (Some (mapCon (\<lambda>c. c\<lparr>Type := ''string'', ContentEncoding := ''base64''\<rparr>) zeroSchema), st)"
  using assms by (auto simp: SchemaFromType_slice SchemaFromType_array sequenceSchema_def)

text \<open>
  Claim C5, as stated, fails on the IP-address type: \<open>net.IP\<close> is a slice of bytes, and
  its schema has the format \<open>ipv4\<close> and no content encoding.
\<close>

theorem ip_type_counterexample:
  "(\<exists>n e. ipType = TSlice n e \<and> Kind e = Uint8)
   \<and> \<not> (\<exists>s st. SchemaFromType exampleLib (inlineRegistry exampleLib 0) () ipType
                  = Inr (Some s, st)
              \<and> ContentEncoding (con s) = ''base64'')"
  by (simp add: SchemaFromType_def Let_def ipType_def typed_def mapCon_def zeroSchema_def
        zeroConstraints_def)

text \<open>
  Claim C5, amended. A slice or an array of bytes other than the IP-address type has a
  string schema with the content encoding \<open>base64\<close>. On a string, \<open>Validate\<close> appends
  for that schema the violation "expected string to be base64 encoded" when the string
  does not decode, and nothing when it does.
\<close>

theorem byte_sequence_schema:
  assumes "Kind e = Uint8" "t = TSlice n e \<or> t = TArray n len e" "t \<noteq> ipType"
  shows "\<exists>s. SchemaFromType L r st t = Inr (Some s, st)
           \<and> Type (con s) = ''string''
           \<and> ContentEncoding (con s) = ''base64''
           \<and> (\<forall>path mode x.
                 Validate L r st s path mode (JStr x) =
                 (if base64Decode L x = None
                  then [violation path ''expected string to be base64 encoded'' (JStr x)]
                  else []))"
proof -
  let ?s = "mapCon (\<lambda>c. c\<lparr>Type := ''string'', ContentEncoding := ''base64''\<rparr>) zeroSchema"
  have "SchemaFromType L r st t = Inr (Some ?s, st)"
    using assms by (rule byteSequence_schema)
  moreover have "Type (con ?s) = ''string''" "ContentEncoding (con ?s) = ''base64''"
    by (simp_all add: mapCon_def zeroSchema_def zeroConstraints_def)
  moreover have "\<forall>path mode x.
      Validate L r st ?s path mode (JStr x) =
      (if base64Decode L x = None
       then [violation path ''expected string to be base64 encoded'' (JStr x)] else [])"
    by (simp add: base64Schema_Validate [OF refl])
  ultimately show ?thesis by blast
qed

theorem byte_sequence_schema_witness:
  "\<exists>s. SchemaFromType exampleLib (inlineRegistry exampleLib 0) () (TSlice [] (TBasic Uint8))
         = Inr (Some s, ())
       \<and> Validate exampleLib (inlineRegistry exampleLib 0) () s [Key ''value'']
           ModeReadFromServer (JStr ''ABCD'') = []
       \<and> Validate exampleLib (inlineRegistry exampleLib 0) () s [Key ''value'']
           ModeReadFromServer (JStr ''!'')
         = [violation [Key ''value''] ''expected string to be base64 encoded'' (JStr ''!'')]"
  using byte_sequence_schema [of "TBasic Uint8" "TSlice [] (TBasic Uint8)" "[]" 0 exampleLib
                                 "inlineRegistry exampleLib 0" "()"]
  by (auto simp: ipType_def exampleLib_def exampleBase64_def)

section \<open>Properties of the precomputed messages\<close>

lemma con_simps [simp]:
  "con (mapCon g s) = g (con s)" "con (mapMsg h s) = con s" "con (setItems i s) = con s"
  "con (setAdditionalProperties a s) = con s" "con (setProperties ps s) = con s"
  by (simp_all add: mapCon_def mapMsg_def setItems_def setAdditionalProperties_def setProperties_def)

lemma msg_simps [simp]:
  "msg (mapCon g s) = msg s" "msg (mapMsg h s) = h (msg s)" "msg (setItems i s) = msg s"
  "msg (setAdditionalProperties a s) = msg s" "msg (setProperties ps s) = msg s"
  by (simp_all add: mapCon_def mapMsg_def setItems_def setAdditionalProperties_def setProperties_def)

lemma Items_simps [simp]:
  "Items (mapCon g s) = Items s" "Items (mapMsg h s) = Items s" "Items (setItems i s) = i"
  "Items (setAdditionalProperties a s) = Items s" "Items (setProperties ps s) = Items s"
  by (simp_all add: mapCon_def mapMsg_def setItems_def setAdditionalProperties_def setProperties_def)

lemma AdditionalProperties_simps [simp]:
  "AdditionalProperties (mapCon g s) = AdditionalProperties s"
  "AdditionalProperties (mapMsg h s) = AdditionalProperties s"
  "AdditionalProperties (setItems i s) = AdditionalProperties s"
  "AdditionalProperties (setAdditionalProperties a s) = a"
  "AdditionalProperties (setProperties ps s) = AdditionalProperties s"
  by (simp_all add: mapCon_def mapMsg_def setItems_def setAdditionalProperties_def setProperties_def)

lemma Properties_simps [simp]:
  "Properties (mapCon g s) = Properties s" "Properties (mapMsg h s) = Properties s"
  "Properties (setItems i s) = Properties s"
  "Properties (setAdditionalProperties a s) = Properties s" "Properties (setProperties ps s) = ps"
  by (simp_all add: mapCon_def mapMsg_def setItems_def setAdditionalProperties_def setProperties_def)

lemma Schema_eqI:
  "con a = con b \<Longrightarrow> msg a = msg b \<Longrightarrow> Items a = Items b \<Longrightarrow>
   AdditionalProperties a = AdditionalProperties b \<Longrightarrow> Properties a = Properties b \<Longrightarrow> a = b"
  by (cases a; cases b) simp

lemma map_of_setRequiredMessages:
  "map_of (setRequiredMessages names tbl) k =
     (if k \<in> set names then Some (requiredMessage k) else map_of tbl k)"
  by (induction names arbitrary: tbl) (auto simp: update_conv')

lemma setRequiredMessages_fixed:
  "\<forall>k \<in> set names. map_of tbl k = Some (requiredMessage k) \<Longrightarrow> setRequiredMessages names tbl = tbl"
  by (induction names arbitrary: tbl) (auto simp: update_triv)

lemma setRequiredMessages_idem:
  "setRequiredMessages names (setRequiredMessages names tbl) = setRequiredMessages names tbl"
  by (rule setRequiredMessages_fixed) (simp add: map_of_setRequiredMessages)

lemma numericMessages_idem:
  "numericMessages L c (numericMessages L c m) = numericMessages L c m"
  by (rule messages.equality) (simp_all add: numericMessages_def split: option.split)

lemma sizeMessages_idem:
  "sizeMessages L c (sizeMessages L c m) = sizeMessages L c m"
  by (rule messages.equality) (simp_all add: sizeMessages_def setRequiredMessages_idem split: option.split)

lemma numeric_size_commute:
  "numericMessages L c (sizeMessages L c' m) = sizeMessages L c' (numericMessages L c m)"
  by (rule messages.equality) (simp_all add: sizeMessages_def numericMessages_def split: option.split)

lemma numeric_pattern_commute:
  "numericMessages L c (m\<lparr>msgPattern := p\<rparr>) = (numericMessages L c m)\<lparr>msgPattern := p\<rparr>"
  by (rule messages.equality) (simp_all add: numericMessages_def split: option.split)

lemma size_pattern_commute:
  "sizeMessages L c (m\<lparr>msgPattern := p\<rparr>) = (sizeMessages L c m)\<lparr>msgPattern := p\<rparr>"
  by (rule messages.equality) (simp_all add: sizeMessages_def split: option.split)

lemma numericMessages_patternRe [simp]:
  "numericMessages L (c\<lparr>patternRe := x\<rparr>) = numericMessages L c"
  by (rule ext) (simp add: numericMessages_def)

lemma sizeMessages_patternRe [simp]:
  "sizeMessages L (c\<lparr>patternRe := x\<rparr>) = sizeMessages L c"
  by (rule ext) (simp add: sizeMessages_def)

text \<open>
  Claim C9. \<open>PrecomputeMessages\<close> is idempotent: when a first call returns, a second call
  on its result (no constraint changed in between) returns that same schema, so every
  precomputed message, the compiled pattern and the table of the required names are
  those of the first call.
\<close>

theorem PrecomputeMessages_idempotent:
  assumes "PrecomputeMessages L s = Inr s'"
  shows "PrecomputeMessages L s' = Inr s'"
proof (cases "Pattern (con s) = []")
  case True
  with assms have s': "s' = mapMsg (sizeMessages L (con s)) (mapMsg (numericMessages L (con s)) s)"
    by (simp add: PrecomputeMessages_def andThen_def Let_def)
  have "PrecomputeMessages L s' = Inr (mapMsg (sizeMessages L (con s')) (mapMsg (numericMessages L (con s')) s'))"
    using True by (simp add: PrecomputeMessages_def andThen_def Let_def s')
  also have "mapMsg (sizeMessages L (con s')) (mapMsg (numericMessages L (con s')) s') = s'"
    by (rule Schema_eqI) (simp_all add: s' numeric_size_commute numericMessages_idem sizeMessages_idem)
  finally show ?thesis .
next
  case False
  with assms have ok: "regexpCompile L (Pattern (con s)) = None"
    by (auto simp add: PrecomputeMessages_def andThen_def Let_def split: option.splits)
  let ?pm = "\<lambda>m. m\<lparr>msgPattern := ''expected string to match pattern '' @ Pattern (con s)\<rparr>"
  let ?pc = "\<lambda>c. c\<lparr>patternRe := Some (Pattern c)\<rparr>"
  from assms False ok have s': "s' = mapMsg (sizeMessages L (con s)) (mapMsg ?pm (mapCon ?pc (mapMsg (numericMessages L (con s)) s)))"
    by (simp add: PrecomputeMessages_def andThen_def Let_def)
  have P: "Pattern (con s') = Pattern (con s)" by (simp add: s')
  have "PrecomputeMessages L s' = Inr (mapMsg (sizeMessages L (con s')) (mapMsg ?pm (mapCon ?pc (mapMsg (numericMessages L (con s')) s'))))"
    using False ok P by (simp add: PrecomputeMessages_def andThen_def Let_def)
  also have "mapMsg (sizeMessages L (con s')) (mapMsg ?pm (mapCon ?pc (mapMsg (numericMessages L (con s')) s'))) = s'"
    by (rule Schema_eqI)
       (simp_all add: s' numeric_size_commute numeric_pattern_commute size_pattern_commute
          numericMessages_idem sizeMessages_idem)
  finally show ?thesis .
qed

theorem PrecomputeMessages_idempotent_witness:
  "\<exists>s'. PrecomputeMessages exampleLib
           (mapCon (\<lambda>c. c\<lparr>Type := ''string'', Minimum := Some 1, Pattern := ''^[a-z]+$'',
                           Required := Some [''value'']\<rparr>) zeroSchema) = Inr s'
        \<and> PrecomputeMessages exampleLib s' = Inr s'
        \<and> msgMinimum (msg s') = ''expected number >= 1''
        \<and> msgRequired (msg s') = Some [(''value'', ''expected required property value to be present'')]"
proof -
  have "\<exists>s'. PrecomputeMessages exampleLib
           (mapCon (\<lambda>c. c\<lparr>Type := ''string'', Minimum := Some 1, Pattern := ''^[a-z]+$'',
                           Required := Some [''value'']\<rparr>) zeroSchema) = Inr s'
        \<and> msgMinimum (msg s') = ''expected number >= 1''
        \<and> msgRequired (msg s') = Some [(''value'', ''expected required property value to be present'')]"
    by (simp add: PrecomputeMessages_def Let_def andThen_def exampleLib_def exampleCompile_def
          numericMessages_def sizeMessages_def zeroSchema_def zeroConstraints_def zeroMessages_def
          requiredMessage_def)
  then show ?thesis using PrecomputeMessages_idempotent by blast
qed


section \<open>The required names of a synthesized schema\<close>

lemma PrecomputeMessages_keeps:
  assumes "PrecomputeMessages L s = Inr s'"
  shows "Properties s' = Properties s" "Items s' = Items s"
    "AdditionalProperties s' = AdditionalProperties s"
    "con s' = con s \<or> con s' = (con s)\<lparr>patternRe := Some (Pattern (con s))\<rparr>"
  using assms
  by (auto simp: PrecomputeMessages_def Let_def andThen_def split: if_splits option.splits)

lemma accInv_empty: "accInv emptyAcc"
  by (simp add: accInv_def emptyAcc_def)

lemma map_fst_update_new:
  "map_of al k = None \<Longrightarrow> map fst (AList.update k v al) = map fst al @ [k]"
  by (induction al) (auto split: if_splits)

lemma accInv_step:
  assumes "accInv acc" "map_of (props acc) name = None"
  shows "accInv (acc\<lparr>props := AList.update name s (props acc),
                     propNames := propNames acc @ [name],
                     required := (if \<not> omit then required acc @ [name] else required acc),
                     requiredMapAcc := (if \<not> omit then AList.update name True (requiredMapAcc acc)
                                        else requiredMapAcc acc)\<rparr>)"
proof -
  from assms(2) have notin: "name \<notin> fst ` set (props acc)"
    by (simp add: map_of_eq_None_iff)
  with assms(1) have nr: "name \<notin> set (required acc)" by (auto simp: accInv_def)
  show ?thesis
    using assms notin nr
    by (auto simp: accInv_def map_fst_update_new update_conv' dom_update image_iff)
qed

lemma structLoop_inv:
  "structLoop L r infos acc st = Inr (acc', st') \<Longrightarrow> accInv acc \<Longrightarrow> accInv acc'"
proof (induction infos arbitrary: acc st)
  case Nil
  then show ?case by simp
next
  case (Cons info infos)
  show ?case
  proof (cases "fieldName (Field info) = ''-'' \<or> map_of (props acc) (fieldName (Field info)) \<noteq> None")
    case True
    with Cons.prems(1) have "structLoop L r infos acc st = Inr (acc', st')"
      by (auto simp: Let_def split: if_splits)
    then show ?thesis using Cons.IH Cons.prems(2) by blast
  next
    case False
    then obtain fs st1 where sf: "SchemaFromField L r st (Some (Parent info)) (Field info) = Inr (fs, st1)"
      using Cons.prems(1) by (cases "SchemaFromField L r st (Some (Parent info)) (Field info)") (auto simp: Let_def andThen_def)
    show ?thesis
    proof (cases fs)
      case None
      with False sf Cons.prems(1) have "structLoop L r infos acc st1 = Inr (acc', st')"
        by (auto simp: Let_def andThen_def)
      then show ?thesis using Cons.IH Cons.prems(2) by blast
    next
      case (Some s)
      let ?acc = "acc\<lparr>props := AList.update (fieldName (Field info)) s (props acc),
                     propNames := propNames acc @ [fieldName (Field info)],
                     required := (if \<not> fieldOmit (Field info) then required acc @ [fieldName (Field info)] else required acc),
                     requiredMapAcc := (if \<not> fieldOmit (Field info) then AList.update (fieldName (Field info)) True (requiredMapAcc acc)
                                        else requiredMapAcc acc)\<rparr>"
      from Some False sf Cons.prems(1) have "structLoop L r infos ?acc st1 = Inr (acc', st')"
        by (auto simp: Let_def andThen_def)
      moreover have "accInv ?acc" using Cons.prems(2) False by (intro accInv_step) auto
      ultimately show ?thesis using Cons.IH by blast
    qed
  qed
qed


lemma scalarSchema_plain:
  "scalarSchema L k = Some s \<Longrightarrow>
   Required (con s) = None \<and> requiredMap (con s) = [] \<and> Properties s = []"
  by (cases k) (auto simp: typed_def withMinZero_def zeroSchema_def zeroConstraints_def)

lemma sequenceSchema_plain:
  "sequenceSchema r st t e = Inr (Some s, st') \<Longrightarrow>
   Required (con s) = None \<and> requiredMap (con s) = [] \<and> Properties s = []"
  by (cases t)
     (auto simp: sequenceSchema_def andThen_def zeroSchema_def zeroConstraints_def
           split: if_splits sum.splits)

lemma structSchema_result:
  assumes "structSchema L r st t = Inr (Some s, st')"
  shows "\<exists>acc. structLoop L r (getFields t) emptyAcc st = Inr (acc, st')
           \<and> Properties s = props acc \<and> Required (con s) = Some (required acc)
           \<and> requiredMap (con s) = requiredMapAcc acc
           \<and> propertyNames (con s) = propNames acc"
proof -
  from assms obtain acc where
    loop: "structLoop L r (getFields t) emptyAcc st = Inr (acc, st')" and
    pm: "PrecomputeMessages L
           (setProperties (props acc)
             (setAdditionalProperties (AddlBool False)
               (mapCon (\<lambda>c. c\<lparr>Type := ''object'', propertyNames := propNames acc,
                                Required := Some (required acc),
                                requiredMap := requiredMapAcc acc\<rparr>) zeroSchema))) = Inr s"
    by (auto simp: structSchema_def andThen_def split: sum.splits)
  from PrecomputeMessages_keeps [OF pm] loop show ?thesis by auto
qed

lemma exampleStruct_schema:
  "\<exists>s. SchemaFromType exampleLib (inlineRegistry exampleLib 1) () exampleStruct = Inr (Some s, ())
      \<and> Required (con s) = Some [''value''] \<and> map fst (Properties s) = [''value'', ''other'']
      \<and> requiredMap (con s) = [(''value'', True)]"
  by (simp add: exampleStruct_def SchemaFromType_def ipType_def timeType_def urlType_def
        structSchema_def getFields.simps emptyAcc_def SchemaFromField_def andThen_def
        fieldName_def fieldOmit_def TagGet_def applyDocTags_def applyDefaultExample_def
        jsonTag_def applyEnum_def applyBounds_def floatTag_def intTag_def boolTag_def
        PrecomputeMessages_def Let_def typed_def nativeFormat_def exampleLib_def
        zeroSchema_def zeroConstraints_def)


text \<open>
  Claim C8. In every schema that \<open>SchemaFromType\<close> returns, each name of \<open>Required\<close> is a
  key of \<open>Properties\<close>, and the lookup set \<open>requiredMap\<close> holds a name (with the value
  true) exactly when the name is in \<open>Required\<close>; it holds no name with the value false.
\<close>

theorem SchemaFromType_required:
  assumes "SchemaFromType L r st t = Inr (Some s, st')"
  shows "set (requiredNames s) \<subseteq> fst ` set (Properties s)
       \<and> (\<forall>k. (map_of (requiredMap (con s)) k = Some True) = (k \<in> set (requiredNames s)))
       \<and> (\<forall>k. map_of (requiredMap (con s)) k \<noteq> Some False)"
proof -
  have plain: ?thesis if "Required (con s) = None \<and> requiredMap (con s) = [] \<and> Properties s = []"
    using that by (simp add: requiredNames_def)
  have typedp: "Required (con (typed a b)) = None \<and> requiredMap (con (typed a b)) = [] \<and> Properties (typed a b) = []" for a b
    by (simp add: typed_def zeroSchema_def zeroConstraints_def)
  show ?thesis
  proof (cases "deref t = ipType")
    case True
    with assms have "s = typed ''string'' ''ipv4''" by (simp add: SchemaFromType_def)
    then show ?thesis using plain typedp by simp
  next
    case nip: False
    show ?thesis
    proof (cases "deref t")
      case (TBasic k)
      with assms nip have "scalarSchema L k = Some s" by (simp add: SchemaFromType_def)
      from scalarSchema_plain [OF this] show ?thesis by (rule plain)
    next
      case (TArray n len e)
      with assms nip have "sequenceSchema r st (deref t) e = Inr (Some s, st')" by (simp add: SchemaFromType_def)
      from sequenceSchema_plain [OF this] show ?thesis by (rule plain)
    next
      case (TSlice n e)
      with assms nip have "sequenceSchema r st (deref t) e = Inr (Some s, st')" by (simp add: SchemaFromType_def)
      from sequenceSchema_plain [OF this] show ?thesis by (rule plain)
    next
      case (TMap n k e)
      with assms nip show ?thesis
        by (intro plain) (auto simp: SchemaFromType_def andThen_def zeroSchema_def zeroConstraints_def split: sum.splits)
    next
      case (TStruct n fs)
      show ?thesis
      proof (cases "deref t = timeType \<or> deref t = urlType")
        case True
        with assms nip TStruct have "s = typed ''string'' ''date-time'' \<or> s = typed ''string'' ''uri''"
          by (auto simp: SchemaFromType_def split: if_splits)
        then show ?thesis using plain typedp by auto
      next
        case False
        with assms nip TStruct have "structSchema L r st (deref t) = Inr (Some s, st')"
          by (simp add: SchemaFromType_def)
        from structSchema_result [OF this] obtain acc where
          loop: "structLoop L r (getFields (deref t)) emptyAcc st = Inr (acc, st')" and
          eqs: "Properties s = props acc" "Required (con s) = Some (required acc)"
               "requiredMap (con s) = requiredMapAcc acc" by blast
        from structLoop_inv [OF loop accInv_empty] have "accInv acc" .
        then show ?thesis using eqs by (simp add: accInv_def requiredNames_def)
      qed
    next
      case (TPtr x)
      with assms nip show ?thesis by (simp add: SchemaFromType_def)
    next
      case (TInterface n)
      with assms nip show ?thesis
        by (intro plain) (auto simp: SchemaFromType_def zeroSchema_def zeroConstraints_def)
    next
      case TFunc
      with assms nip show ?thesis by (simp add: SchemaFromType_def)
    next
      case (TChan x)
      with assms nip show ?thesis by (simp add: SchemaFromType_def)
    qed
  qed
qed


theorem SchemaFromType_required_witness:
  "\<exists>s. SchemaFromType exampleLib (inlineRegistry exampleLib 1) () exampleStruct = Inr (Some s, ())
      \<and> Required (con s) = Some [''value'']
      \<and> map fst (Properties s) = [''value'', ''other'']
      \<and> set (requiredNames s) \<subseteq> fst ` set (Properties s)
      \<and> (\<forall>k. (map_of (requiredMap (con s)) k = Some True) = (k \<in> set (requiredNames s)))"
proof -
  from exampleStruct_schema obtain s where
    s: "SchemaFromType exampleLib (inlineRegistry exampleLib 1) () exampleStruct = Inr (Some s, ())
        \<and> Required (con s) = Some [''value'']
        \<and> map fst (Properties s) = [''value'', ''other'']
        \<and> requiredMap (con s) = [(''value'', True)]" ..
  then have run: "SchemaFromType exampleLib (inlineRegistry exampleLib 1) () exampleStruct
                  = Inr (Some s, ())"
    by (rule conjunct1)
  from SchemaFromType_required [OF run]
  have "set (requiredNames s) \<subseteq> fst ` set (Properties s)
        \<and> (\<forall>k. (map_of (requiredMap (con s)) k = Some True) = (k \<in> set (requiredNames s)))"
    by (simp only: simp_thms)
  with s show ?thesis by (intro exI [of _ s]) (simp only: simp_thms)
qed

section \<open>The loop over the fields of a struct\<close>












lemma getFields_depth_first_example:
  "map (\<lambda>i. (TypeName (Parent i), Name (Field i), FieldType (Field i))) (getFields deepStruct)
     = [(''D'', ''X'', TBasic IntK), (''C'', ''X'', TBasic String)]"
  by (simp add: getFields.simps deepStruct_def)







section \<open>Malformed annotations\<close>







lemma applyDocTags_Type [simp]: "Type (con (applyDocTags f fs)) = Type (con fs)"
  by (simp add: applyDocTags_def Let_def)








lemma jsonTagValue_unconvertible:
  assumes "Kind t \<noteq> String" "Kind t \<noteq> Slice" "jsonUnmarshal L v = Inr x" "TypeOf x = Some tv"
      and "tv \<noteq> t" "Kind tv \<noteq> Slice" "\<not> ConvertibleTo L tv t"
  shows "jsonTagValue L f t v = Inl UnableToConvert"
  using assms by (simp add: jsonTagValue_def)








end
